theory Spec2Isabelle
  imports Complex_Main "HOL-Library.Sublist"
begin

section \<open>JavaScript strings\<close>

text \<open>
  A JavaScript string is modelled as a \<^typ>\<open>string\<close>: the list of the bytes of its UTF-8
  encoding. The only character classes the service looks at are ASCII (the digits
  \<open>0\<close> to \<open>9\<close>), and every byte of a character beyond ASCII is above \<open>0x7F\<close>, so
  filtering digits, testing a prefix and concatenating give the same result on
  bytes as on UTF-16 code units.
\<close>

definition isDigit :: "char \<Rightarrow> bool" where
  \<comment> \<open>the class \<open>\d\<close> of a regular expression without the \<open>u\<close> flag: \<open>[0-9]\<close>\<close>
  "isDigit c \<longleftrightarrow> c \<in> set ''0123456789''"

definition replace_nondigits :: "string \<Rightarrow> string" where
  \<comment> \<open>\<open>s.replace(/\D/g, '')\<close>: every character outside \<open>[0-9]\<close> is deleted\<close>
  "replace_nondigits s = filter isDigit s"

fun startsWith :: "string \<Rightarrow> string \<Rightarrow> bool" where
  \<comment> \<open>\<open>s.startsWith(p)\<close>\<close>
  "startsWith s [] = True"
| "startsWith [] (p # ps) = False"
| "startsWith (c # cs) (p # ps) = (c = p \<and> startsWith cs ps)"

definition substring :: "string \<Rightarrow> nat \<Rightarrow> string" where
  \<comment> \<open>\<open>s.substring(n)\<close>: the characters from index \<open>n\<close> on, the empty string past the end\<close>
  "substring s n = drop n s"

fun includes_str :: "string \<Rightarrow> string \<Rightarrow> bool" where
  \<comment> \<open>\<open>p\<close> occurs in \<open>s\<close> as a contiguous run, as \<open>s.includes(p)\<close> tests it;
      the service does not call it, the properties of the message texts are stated with it\<close>
  "includes_str [] p = (p = [])"
| "includes_str (c # cs) p = (startsWith (c # cs) p \<or> includes_str cs p)"

section \<open>Address normalization\<close>

text \<open>
  \<^verbatim>\<open>
  function formatPhoneNumber(number) {
      let cleaned = number.replace(/\D/g, '');
      if (cleaned.startsWith('0')) { cleaned = cleaned.substring(1); }
      if (!cleaned.startsWith('55')) { cleaned = '55' + cleaned; }
      return cleaned + '@s.whatsapp.net';
  }
  \<close>
\<close>

definition formatPhoneNumber :: "string \<Rightarrow> string" where
  "formatPhoneNumber number =
     (let cleaned = replace_nondigits number;
          cleaned = (if startsWith cleaned ''0'' then substring cleaned 1 else cleaned);
          cleaned = (if \<not> startsWith cleaned ''55'' then ''55'' @ cleaned else cleaned)
      in cleaned @ ''@s.whatsapp.net'')"

text \<open>
  The normalization as the specification words it, step by step: strip the non-digits,
  drop one leading zero, prepend the country code unless it is there, append the suffix.
\<close>

definition strip_non_digits :: "string \<Rightarrow> string" where
  \<comment> \<open>a digit is a character whose code is between 48 and 57\<close>
  "strip_non_digits s = [c \<leftarrow> s. 48 \<le> (of_char c :: nat) \<and> (of_char c :: nat) \<le> 57]"

definition drop_leading_zero :: "string \<Rightarrow> string" where
  "drop_leading_zero ds = (case ds of [] \<Rightarrow> [] | d # rest \<Rightarrow> if d = CHR ''0'' then rest else ds)"

definition ensure_country_code :: "string \<Rightarrow> string" where
  "ensure_country_code ds = (if prefix ''55'' ds then ds else ''55'' @ ds)"

definition normalize_spec :: "string \<Rightarrow> string" where
  "normalize_spec x =
     ensure_country_code (drop_leading_zero (strip_non_digits x)) @ ''@s.whatsapp.net''"

text \<open>The digits of the result: the part before the suffix.\<close>

definition cleaned_digits :: "string \<Rightarrow> string" where
  "cleaned_digits number =
     (let cleaned = replace_nondigits number;
          cleaned = (if startsWith cleaned ''0'' then substring cleaned 1 else cleaned)
      in if \<not> startsWith cleaned ''55'' then ''55'' @ cleaned else cleaned)"


section \<open>Characters beyond ASCII\<close>

text \<open>
  The message templates and log lines of the service hold emoji and accented letters.
  Each is named here with the bytes of its UTF-8 encoding.
\<close>

definition emoji_cross_mark :: string where
  \<comment> \<open>U+274C\<close>
  "emoji_cross_mark = [CHR 0xE2, CHR 0x9D, CHR 0x8C]"

definition emoji_check_mark :: string where
  \<comment> \<open>U+2705\<close>
  "emoji_check_mark = [CHR 0xE2, CHR 0x9C, CHR 0x85]"

definition emoji_memo :: string where
  \<comment> \<open>U+1F4DD\<close>
  "emoji_memo = [CHR 0xF0, CHR 0x9F, CHR 0x93, CHR 0x9D]"

definition emoji_mobile_phone :: string where
  \<comment> \<open>U+1F4F1\<close>
  "emoji_mobile_phone = [CHR 0xF0, CHR 0x9F, CHR 0x93, CHR 0xB1]"

definition emoji_arrows :: string where
  \<comment> \<open>U+1F504\<close>
  "emoji_arrows = [CHR 0xF0, CHR 0x9F, CHR 0x94, CHR 0x84]"

definition emoji_outbox :: string where
  \<comment> \<open>U+1F4E4\<close>
  "emoji_outbox = [CHR 0xF0, CHR 0x9F, CHR 0x93, CHR 0xA4]"

definition emoji_lock :: string where
  \<comment> \<open>U+1F510\<close>
  "emoji_lock = [CHR 0xF0, CHR 0x9F, CHR 0x94, CHR 0x90]"

definition emoji_waving_hand :: string where
  \<comment> \<open>U+1F44B\<close>
  "emoji_waving_hand = [CHR 0xF0, CHR 0x9F, CHR 0x91, CHR 0x8B]"

definition emoji_money_bag :: string where
  \<comment> \<open>U+1F4B0\<close>
  "emoji_money_bag = [CHR 0xF0, CHR 0x9F, CHR 0x92, CHR 0xB0]"

definition emoji_key :: string where
  \<comment> \<open>U+1F511\<close>
  "emoji_key = [CHR 0xF0, CHR 0x9F, CHR 0x94, CHR 0x91]"

definition emoji_warning :: string where
  \<comment> \<open>U+26A0 U+FE0F\<close>
  "emoji_warning = [CHR 0xE2, CHR 0x9A, CHR 0xA0, CHR 0xEF, CHR 0xB8, CHR 0x8F]"

definition emoji_siren :: string where
  \<comment> \<open>U+1F6A8\<close>
  "emoji_siren = [CHR 0xF0, CHR 0x9F, CHR 0x9A, CHR 0xA8]"

definition lat_o_acute :: string where
  \<comment> \<open>U+00F3\<close>
  "lat_o_acute = [CHR 0xC3, CHR 0xB3]"

definition lat_c_cedilla :: string where
  \<comment> \<open>U+00E7\<close>
  "lat_c_cedilla = [CHR 0xC3, CHR 0xA7]"

definition lat_a_tilde :: string where
  \<comment> \<open>U+00E3\<close>
  "lat_a_tilde = [CHR 0xC3, CHR 0xA3]"

definition lat_e_acute :: string where
  \<comment> \<open>U+00E9\<close>
  "lat_e_acute = [CHR 0xC3, CHR 0xA9]"

definition lat_a_acute :: string where
  \<comment> \<open>U+00E1\<close>
  "lat_a_acute = [CHR 0xC3, CHR 0xA1]"

section \<open>JavaScript values and errors\<close>

text \<open>
  The values a parsed JSON body can hold, and \<open>undefined\<close> for a property that is absent.
  An object that is not an array carries its own properties, in the order of the JSON
  text; they are all data, since JSON has no functions.
\<close>

datatype jsval =
    JUndefined
  | JNull
  | JBool bool
  | JNum real
  | JStr string
  | JArr "jsval list"
  | JObj "(string \<times> jsval) list"

fun truthy :: "jsval \<Rightarrow> bool" where
  \<comment> \<open>ToBoolean: \<open>undefined\<close>, \<open>null\<close>, \<open>false\<close>, zero and the empty string are falsy\<close>
  "truthy JUndefined = False"
| "truthy JNull = False"
| "truthy (JBool b) = b"
| "truthy (JNum x) = (x \<noteq> 0)"
| "truthy (JStr s) = (s \<noteq> [])"
| "truthy (JArr vs) = True"
| "truthy (JObj fields) = True"

text \<open>
  A thrown value or a rejection reason: an error object with its \<open>message\<close> and, for an
  error of the store's REST layer, its \<open>code\<close>.
\<close>

datatype js_error = JsError (err_code: "string option") (err_message: string)

fun join_comma :: "string list \<Rightarrow> string" where
  \<comment> \<open>\<open>Array.prototype.join\<close> with its default separator\<close>
  "join_comma [] = []"
| "join_comma [s] = s"
| "join_comma (s # t # ss) = s @ '','' @ join_comma (t # ss)"

text \<open>
  ToString, as a template literal applies it to an interpolated value; \<open>Inl\<close> is a
  throw. The decimal rendering of a number is the language's own and is taken as the
  parameter \<open>Number_toString\<close>. An array is joined, its \<open>null\<close> and \<open>undefined\<close>
  elements giving the empty string. An object answers through the \<open>toString\<close> it
  inherits, unless it has an own property of that name: that property is data, not a
  function, the inherited \<open>valueOf\<close> returns the object itself, and the conversion throws
  a TypeError.
\<close>

fun ToString :: "(real \<Rightarrow> string) \<Rightarrow> jsval \<Rightarrow> js_error + string"
  and ToString_elements :: "(real \<Rightarrow> string) \<Rightarrow> jsval list \<Rightarrow> js_error + string list" where
  "ToString Number_toString JUndefined = Inr ''undefined''"
| "ToString Number_toString JNull = Inr ''null''"
| "ToString Number_toString (JBool b) = Inr (if b then ''true'' else ''false'')"
| "ToString Number_toString (JNum x) = Inr (Number_toString x)"
| "ToString Number_toString (JStr s) = Inr s"
| "ToString Number_toString (JArr vs) =
     (case ToString_elements Number_toString vs of
        Inl e \<Rightarrow> Inl e
      | Inr ss \<Rightarrow> Inr (join_comma ss))"
| "ToString Number_toString (JObj fields) =
     (if ''toString'' \<in> set (map fst fields)
      then Inl (JsError None ''Cannot convert object to primitive value'')
      else Inr ''[object Object]'')"
| "ToString_elements Number_toString [] = Inr []"
| "ToString_elements Number_toString (v # vs) =
     (case (if v = JUndefined \<or> v = JNull then Inr [] else ToString Number_toString v) of
        Inl e \<Rightarrow> Inl e
      | Inr s \<Rightarrow>
          (case ToString_elements Number_toString vs of
             Inl e \<Rightarrow> Inl e
           | Inr ss \<Rightarrow> Inr (s # ss)))"

section \<open>Process state and effects\<close>

text \<open>
  The module-level variables \<open>sock\<close> and \<open>isConnected\<close>, and a trace of each effect
  the claims speak about: the timers set with \<open>setTimeout\<close>, the calls of
  \<open>sock.sendMessage\<close>, and what was logged or printed. A log entry keeps the level and the
  message; further arguments of the logger call are not recorded.
\<close>

type_synonym socket = nat

datatype timer_callback =
    Reconnect    \<comment> \<open>\<open>() => connectToWhatsApp()\<close>\<close>
  | Resolve      \<comment> \<open>the \<open>resolve\<close> of the promise of \<open>randomDelay\<close>\<close>

datatype effect =
    LogInfo string
  | LogError string
  | ConsoleLog string
  | QrCode string    \<comment> \<open>\<open>qrcode.generate(qr, { small: true })\<close>\<close>

record state =
  sock :: "socket option"
  isConnected :: bool
  timers :: "(timer_callback \<times> int) list"
  sent :: "(string \<times> string) list"
  console :: "effect list"

definition initial_state :: state where
  \<comment> \<open>\<open>let sock = null; let isConnected = false;\<close>\<close>
  "initial_state = \<lparr>sock = None, isConnected = False, timers = [], sent = [], console = []\<rparr>"

definition emit :: "effect \<Rightarrow> state \<Rightarrow> state" where
  "emit out st = st\<lparr>console := console st @ [out]\<rparr>"

definition setTimeout :: "timer_callback \<Rightarrow> int \<Rightarrow> state \<Rightarrow> state" where
  "setTimeout callback ms st = st\<lparr>timers := timers st @ [(callback, ms)]\<rparr>"

section \<open>Session store adapter\<close>

text \<open>
  The credential state is a pair of sub-records owned by the messaging library; \<open>None\<close> is
  \<open>null\<close>. The store client is an outside collaborator, so what its awaited call
  gives is a parameter of the model: the promise rejects with an error, or fulfils with a
  response that holds \<open>data\<close> and \<open>error\<close>.
\<close>

record 'b auth_state =
  creds :: "'b option"
  keys :: "'b option"

datatype 'a settled = Rejected js_error | Fulfilled 'a

record 'b select_response =
  data :: "'b auth_state option option"
    \<comment> \<open>\<open>None\<close>: \<open>data\<close> is \<open>null\<close>; \<open>Some None\<close>: a row whose \<open>auth_state\<close> is falsy\<close>
  select_error :: "js_error option"

record upsert_response =
  upsert_error :: "js_error option"

definition empty_auth_state :: "'b auth_state" where
  \<comment> \<open>\<open>{ creds: null, keys: null }\<close>\<close>
  "empty_auth_state = \<lparr>creds = None, keys = None\<rparr>"

text \<open>The body of the \<open>try\<close> block of \<open>saveState\<close>; \<open>Inl\<close> is a throw.\<close>

definition saveState_try :: "upsert_response settled \<Rightarrow> state \<Rightarrow> (js_error + unit) \<times> state" where
  "saveState_try response st =
     (case response of
        Rejected e \<Rightarrow> (Inl e, st)
      | Fulfilled r \<Rightarrow>
          (case upsert_error r of
             Some error \<Rightarrow> (Inl error, st)
           | None \<Rightarrow> (Inr (), emit (LogInfo (emoji_check_mark @ '' Auth state saved to Supabase'')) st)))"

text \<open>\<open>saveState\<close>: the \<open>catch\<close> block logs the error and returns normally.\<close>

definition saveState :: "upsert_response settled \<Rightarrow> state \<Rightarrow> (js_error + unit) \<times> state" where
  "saveState response st =
     (case saveState_try response st of
        (Inl error, st') \<Rightarrow> (Inr (), emit (LogError (emoji_cross_mark @ '' Error saving auth state:'')) st')
      | (Inr u, st') \<Rightarrow> (Inr u, st'))"

text \<open>
  The body of the \<open>try\<close> block of \<open>loadState\<close>. The success line is logged before
  \<open>data.auth_state\<close> is read, and that read throws a TypeError when \<open>data\<close> is \<open>null\<close>.
\<close>

definition loadState_try ::
  "'b select_response settled \<Rightarrow> state \<Rightarrow> (js_error + 'b auth_state) \<times> state" where
  "loadState_try response st =
     (case response of
        Rejected e \<Rightarrow> (Inl e, st)
      | Fulfilled r \<Rightarrow>
          (case select_error r of
             Some error \<Rightarrow>
               if err_code error = Some ''PGRST116''
               then (Inr empty_auth_state, emit (LogInfo (emoji_memo @ '' No existing auth state found, starting fresh'')) st)
               else (Inl error, st)
           | None \<Rightarrow>
               (let st = emit (LogInfo (emoji_check_mark @ '' Auth state loaded from Supabase'')) st
                in case data r of
                     None \<Rightarrow> (Inl (JsError None (''Cannot read properties of null (reading '' @ [CHR 0x27] @ ''auth_state'' @ [CHR 0x27] @ '')'')), st)
                   | Some None \<Rightarrow> (Inr empty_auth_state, st)
                   | Some (Some auth) \<Rightarrow> (Inr auth, st))))"

definition loadState ::
  "'b select_response settled \<Rightarrow> state \<Rightarrow> (js_error + 'b auth_state) \<times> state" where
  "loadState response st =
     (case loadState_try response st of
        (Inl error, st') \<Rightarrow> (Inr empty_auth_state, emit (LogError (emoji_cross_mark @ '' Error loading auth state:'')) st')
      | (Inr auth, st') \<Rightarrow> (Inr auth, st'))"

section \<open>Connection manager\<close>

text \<open>
  An update of the transport. \<open>lastDisconnect?.error?.output?.statusCode\<close> is read through
  optional chaining, so each link may be absent (\<open>None\<close>).
\<close>

record boom_output =
  statusCode :: "int option"

record disconnect_error =
  error_output :: "boom_output option"
  error_message :: "string option"

record last_disconnect =
  disconnect_error :: "disconnect_error option"

record update =
  connection :: "string option"
  lastDisconnect :: "last_disconnect option"
  qr :: "string option"

definition update_statusCode :: "update \<Rightarrow> int option" where
  \<comment> \<open>\<open>lastDisconnect?.error?.output?.statusCode\<close>\<close>
  "update_statusCode u =
     Option.bind (Option.bind (Option.bind (lastDisconnect u) disconnect_error) error_output)
       statusCode"

text \<open>
  The handler of \<open>connection.update\<close>. \<open>DisconnectReason.loggedOut\<close> is a constant of the
  messaging library and is the parameter \<open>loggedOut\<close>.
  \<^verbatim>\<open>
  if (connection === 'close') {
      const statusCode = lastDisconnect?.error?.output?.statusCode;
      ...
      const shouldReconnect = statusCode !== DisconnectReason.loggedOut;
      if (shouldReconnect) {
          logger.info('Reconnecting in 5 seconds...');
          setTimeout(() => connectToWhatsApp(), 5000);
      } else {
          isConnected = false;
          logger.error('... Logged out. Please restart and scan QR code again.');
      }
  } else if (connection === 'open') {
      isConnected = true;
      ...
  } else if (connection === 'connecting') { ... }
  \<close>
\<close>

definition show_qr :: "string \<Rightarrow> state \<Rightarrow> state" where
  "show_qr code st =
     emit (LogInfo ''Scan the QR code above with WhatsApp'')
       (emit (ConsoleLog ''\<newline>'')
         (emit (QrCode code)
           (emit (ConsoleLog ''\<newline>'')
             (emit (LogInfo ''QR Code:'')
               (emit (LogInfo (emoji_mobile_phone @ '' QR Code generated - Scan with WhatsApp'')) st)))))"

definition connection_update :: "int \<Rightarrow> update \<Rightarrow> state \<Rightarrow> state" where
  "connection_update loggedOut u st =
     (let st = emit (LogInfo ''Connection update:'') st;
          st = (case qr u of
                  None \<Rightarrow> st
                | Some code \<Rightarrow> if code \<noteq> [] then show_qr code st else st)
      in if connection u = Some ''close'' then
           (let statusCode = update_statusCode u;
                st = emit (LogError ''Connection closed:'') st;
                shouldReconnect = (statusCode \<noteq> Some loggedOut)
            in if shouldReconnect
               then setTimeout Reconnect 5000 (emit (LogInfo ''Reconnecting in 5 seconds...'') st)
               else emit (LogError (emoji_cross_mark @ '' Logged out. Please restart and scan QR code again.'')) (st\<lparr>isConnected := False\<rparr>))
         else if connection u = Some ''open'' then
           emit (LogInfo (emoji_check_mark @ '' WhatsApp connected successfully!'')) (st\<lparr>isConnected := True\<rparr>)
         else if connection u = Some ''connecting'' then
           emit (LogInfo (emoji_arrows @ '' Connecting to WhatsApp...'')) st
         else st)"

section \<open>Sending a message\<close>

text \<open>
  \<^verbatim>\<open>
  function randomDelay(min = 1000, max = 3000) {
      return new Promise(resolve =>
          setTimeout(resolve, Math.floor(Math.random() * (max - min + 1)) + min));
  }
  \<close>
  \<open>Math.random()\<close> returns a double-precision number that is at least 0 and below 1.
  Such a number is \<open>mantissa / 2 ^ scale\<close> with a mantissa of at most 53 bits and a scale
  of at most 1074, and every such quotient below 1 is one of them.
\<close>

record draw =
  mantissa :: nat
  scale :: nat

definition is_draw :: "draw \<Rightarrow> bool" where
  "is_draw d \<longleftrightarrow> mantissa d < 2 ^ 53 \<and> scale d \<le> 1074 \<and> mantissa d < 2 ^ scale d"

definition draw_value :: "draw \<Rightarrow> real" where
  "draw_value d = of_nat (mantissa d) / 2 ^ scale d"

text \<open>
  The product of the draw and the whole number \<open>max - min + 1\<close> is a double again: the
  exact product \<open>N / 2 ^ scale\<close> rounded to the nearest number with 53 significant bits,
  a tie going to the even one. \<open>round_nearest_even\<close> rounds the numerator \<open>N\<close>; as the
  scale is at most 1074, the result is in the range of the doubles.
\<close>

fun bit_length :: "nat \<Rightarrow> nat" where
  \<comment> \<open>the number of binary digits of \<open>n\<close>\<close>
  "bit_length n = (if n = 0 then 0 else Suc (bit_length (n div 2)))"

declare bit_length.simps [simp del]

definition round_nearest_even :: "nat \<Rightarrow> nat" where
  "round_nearest_even N =
     (let bits = bit_length N
      in if bits \<le> 53 then N
         else
           (let s = bits - 53;
                q = N div 2 ^ s;
                r = N mod 2 ^ s;
                half = 2 ^ (s - 1)
            in (if half < r \<or> (r = half \<and> odd q) then q + 1 else q) * 2 ^ s))"

text \<open>
  The delay in milliseconds. \<open>min\<close> and \<open>max\<close> are whole numbers of a magnitude below
  \<open>2 ^ 52\<close>, as the defaults are, so that the subtraction and the two additions are
  exact in double precision. \<open>Math.floor\<close> of the rounded product is the division, which
  rounds down.
\<close>

definition randomDelay_ms :: "int \<Rightarrow> int \<Rightarrow> draw \<Rightarrow> int" where
  "randomDelay_ms min_ms max_ms random =
     (let n = max_ms - min_ms + 1;
          product = round_nearest_even (mantissa random * nat \<bar>n\<bar>)
      in (sgn n * int product) div 2 ^ scale random + min_ms)"

definition randomDelay :: "draw \<Rightarrow> state \<Rightarrow> state" where
  \<comment> \<open>called without arguments: \<open>min = 1000\<close>, \<open>max = 3000\<close>\<close>
  "randomDelay random st = setTimeout Resolve (randomDelay_ms 1000 3000 random) st"

text \<open>
  \<open>formatPhoneNumber\<close> on a value of any type: a value that is not a string has no
  \<open>replace\<close> method and the call throws a TypeError.
\<close>

definition formatPhoneNumber_value :: "jsval \<Rightarrow> js_error + string" where
  "formatPhoneNumber_value number =
     (case number of
        JStr s \<Rightarrow> Inr (formatPhoneNumber s)
      | JUndefined \<Rightarrow> Inl (JsError None (''Cannot read properties of undefined (reading '' @ [CHR 0x27] @ ''replace'' @ [CHR 0x27] @ '')''))
      | JNull \<Rightarrow> Inl (JsError None (''Cannot read properties of null (reading '' @ [CHR 0x27] @ ''replace'' @ [CHR 0x27] @ '')''))
      | _ \<Rightarrow> Inl (JsError None ''number.replace is not a function''))"

text \<open>
  \<^verbatim>\<open>
  async function sendWhatsAppMessage(number, message) {
      if (!isConnected || !sock) { throw new Error('WhatsApp not connected'); }
      const formattedNumber = formatPhoneNumber(number);
      await randomDelay();
      await sock.sendMessage(formattedNumber, { text: message });
      logger.info(`... Message sent to ${number}`);
  }
  \<close>
  \<open>send_failure\<close> is what the transport answers to \<open>sock.sendMessage\<close>: \<open>None\<close> when the
  promise fulfils, the error when it rejects. The call is recorded in \<open>sent\<close> in both
  cases. A call runs here without other events in between its two waits.
\<close>

definition sendWhatsAppMessage ::
  "(real \<Rightarrow> string) \<Rightarrow> draw \<Rightarrow> js_error option \<Rightarrow> jsval \<Rightarrow> string \<Rightarrow> state
     \<Rightarrow> (js_error + unit) \<times> state" where
  "sendWhatsAppMessage Number_toString random send_failure number message st =
     (if \<not> isConnected st \<or> sock st = None
      then (Inl (JsError None ''WhatsApp not connected''), st)
      else
        (case formatPhoneNumber_value number of
           Inl e \<Rightarrow> (Inl e, st)
         | Inr formattedNumber \<Rightarrow>
             (let st = randomDelay random st;
                  st = st\<lparr>sent := sent st @ [(formattedNumber, message)]\<rparr>
              in case send_failure of
                   Some e \<Rightarrow> (Inl e, st)
                 | None \<Rightarrow>
                     (case ToString Number_toString number of
                        Inl e \<Rightarrow> (Inl e, st)
                      | Inr shown \<Rightarrow>
                          (Inr (), emit (LogInfo (emoji_outbox @ '' Message sent to '' @ shown)) st)))))"

section \<open>HTTP layer\<close>

record request =
  x_api_key :: "string option"    \<comment> \<open>\<open>req.headers['x-api-key']\<close>\<close>
  body :: "string \<rightharpoonup> jsval"      \<comment> \<open>\<open>req.body\<close>, the parsed JSON object\<close>

record response =
  status :: nat
  json :: "(string \<times> jsval) list"

definition property :: "(string \<rightharpoonup> jsval) \<Rightarrow> string \<Rightarrow> jsval" where
  \<comment> \<open>reading a property: \<open>undefined\<close> when the object has no such key\<close>
  "property obj k = (case obj k of None \<Rightarrow> JUndefined | Some v \<Rightarrow> v)"

definition validateApiKey :: "string \<Rightarrow> request \<Rightarrow> response option" where
  \<comment> \<open>\<open>None\<close> is \<open>next()\<close>\<close>
  "validateApiKey API_KEY req =
     (let unauthorized = \<lparr>status = 401, json = [(''success'', JBool False),
            (''error'', JStr ''Unauthorized - Invalid API Key'')]\<rparr>
      in case x_api_key req of
           None \<Rightarrow> Some unauthorized
         | Some apiKey \<Rightarrow>
             if apiKey = [] \<or> apiKey \<noteq> API_KEY then Some unauthorized else None)"

definition health :: "string \<Rightarrow> state \<Rightarrow> response" where
  \<comment> \<open>\<open>GET /health\<close>; the parameter is \<open>new Date().toISOString()\<close>\<close>
  "health timestamp st =
     \<lparr>status = 200, json = [(''success'', JBool True), (''connected'', JBool (isConnected st)),
        (''timestamp'', JStr timestamp)]\<rparr>"

definition server_error :: "js_error \<Rightarrow> response" where
  "server_error error =
     \<lparr>status = 500, json = [(''success'', JBool False), (''error'', JStr (err_message error))]\<rparr>"

definition otp_message :: "string \<Rightarrow> string" where
  "otp_message code =
       emoji_lock @ '' *RachaAI*\<newline>\<newline>Seu c'' @ lat_o_acute
       @ ''digo de ativa'' @ lat_c_cedilla @ lat_a_tilde @ ''o '' @ lat_e_acute @ '': *''
       @ code @ ''*\<newline>\<newline>Utilize-o para validar sua conta agora.''"

definition send_otp ::
  "(real \<Rightarrow> string) \<Rightarrow> draw \<Rightarrow> js_error option \<Rightarrow> request \<Rightarrow> state \<Rightarrow> response \<times> state" where
  "send_otp Number_toString random send_failure req st =
     (let number = property (body req) ''number'';
          code = property (body req) ''code''
      in if \<not> truthy number \<or> \<not> truthy code
         then (\<lparr>status = 400, json = [(''success'', JBool False),
                  (''error'', JStr ''Missing required fields: number, code'')]\<rparr>, st)
         else
           (case ToString Number_toString code of
              Inl error \<Rightarrow>
                (server_error error, emit (LogError (emoji_cross_mark @ '' Error sending OTP:'')) st)
            | Inr shown \<Rightarrow>
                (let message = otp_message shown
                 in case sendWhatsAppMessage Number_toString random send_failure number message st of
                      (Inl error, st') \<Rightarrow>
                        (server_error error,
                         emit (LogError (emoji_cross_mark @ '' Error sending OTP:'')) st')
                    | (Inr u, st') \<Rightarrow>
                        (case formatPhoneNumber_value number of
                           Inl error \<Rightarrow>
                             (server_error error,
                              emit (LogError (emoji_cross_mark @ '' Error sending OTP:'')) st')
                         | Inr formatted \<Rightarrow>
                             (\<lparr>status = 200, json = [(''success'', JBool True),
                                 (''message'', JStr ''OTP sent successfully''),
                                 (''number'', JStr formatted)]\<rparr>, st')))))"

definition post_send_otp ::
  "string \<Rightarrow> (real \<Rightarrow> string) \<Rightarrow> draw \<Rightarrow> js_error option \<Rightarrow> request \<Rightarrow> state
     \<Rightarrow> response \<times> state" where
  \<comment> \<open>\<open>app.post('/v1/send-otp', validateApiKey, ...)\<close>\<close>
  "post_send_otp API_KEY Number_toString random send_failure req st =
     (case validateApiKey API_KEY req of
        Some denied \<Rightarrow> (denied, st)
      | None \<Rightarrow> send_otp Number_toString random send_failure req st)"

definition message_D_minus_1 :: "string \<Rightarrow> string \<Rightarrow> string \<Rightarrow> string" where
  "message_D_minus_1 service value pixKey =
       emoji_waving_hand @ '' Ol'' @ lat_a_acute
       @ ''!\<newline>\<newline>Sua parte da assinatura *'' @ service @ ''* vence amanh''
       @ lat_a_tilde @ ''.\<newline>\<newline>'' @ emoji_money_bag @ '' Valor: R$ '' @ value
       @ ''\<newline>'' @ emoji_key @ '' Chave Pix: '' @ [CHR 0x60] @ pixKey @ [CHR 0x60]
       @ ''\<newline>\<newline>Pague agora e evite transtornos!''"

definition message_D0 :: "string \<Rightarrow> string \<Rightarrow> string \<Rightarrow> string" where
  "message_D0 service value pixKey =
       emoji_warning @ '' *Aten'' @ lat_c_cedilla @ lat_a_tilde
       @ ''o!*\<newline>\<newline>Sua fatura do *'' @ service
       @ ''* vence *HOJE*.\<newline>\<newline>Evite a interrup'' @ lat_c_cedilla
       @ lat_a_tilde @ ''o do servi'' @ lat_c_cedilla @ ''o!\<newline>\<newline>''
       @ emoji_money_bag @ '' Valor: R$ '' @ value @ ''\<newline>'' @ emoji_key
       @ '' Chave Pix: '' @ [CHR 0x60] @ pixKey @ [CHR 0x60]"

definition message_D_plus_1 :: "string \<Rightarrow> string \<Rightarrow> string \<Rightarrow> string" where
  "message_D_plus_1 service value pixKey =
       emoji_siren @ '' *PAGAMENTO ATRASADO*\<newline>\<newline>Sua assinatura do *''
       @ service @ ''* venceu ontem.\<newline>\<newline>O dono do grupo j'' @ lat_a_acute
       @ '' foi notificado.\<newline>\<newline>'' @ emoji_money_bag @ '' Valor: R$ ''
       @ value @ ''\<newline>'' @ emoji_key @ '' Chave Pix: '' @ [CHR 0x60] @ pixKey
       @ [CHR 0x60] @ ''\<newline>\<newline>Regularize agora para manter o acesso!''"

text \<open>
  The three interpolations of a billing template, in the order of the text: the first
  that throws ends the evaluation.
\<close>

definition interpolate ::
  "(real \<Rightarrow> string) \<Rightarrow> (string \<Rightarrow> string \<Rightarrow> string \<Rightarrow> string) \<Rightarrow> jsval \<Rightarrow> jsval \<Rightarrow> jsval
     \<Rightarrow> js_error + string" where
  "interpolate Number_toString template service value pixKey =
     (case ToString Number_toString service of
        Inl e \<Rightarrow> Inl e
      | Inr s \<Rightarrow>
          (case ToString Number_toString value of
             Inl e \<Rightarrow> Inl e
           | Inr v \<Rightarrow>
               (case ToString Number_toString pixKey of
                  Inl e \<Rightarrow> Inl e
                | Inr p \<Rightarrow> Inr (template s v p))))"

definition billing_message ::
  "(real \<Rightarrow> string) \<Rightarrow> jsval \<Rightarrow> jsval \<Rightarrow> jsval \<Rightarrow> jsval \<Rightarrow> (js_error + string) option" where
  \<comment> \<open>the \<open>switch (type)\<close>, which compares with \<open>===\<close>; \<open>None\<close> is the \<open>default\<close> case\<close>
  "billing_message Number_toString type service value pixKey =
     (if type = JStr ''D-1''
      then Some (interpolate Number_toString message_D_minus_1 service value pixKey)
      else if type = JStr ''D0''
      then Some (interpolate Number_toString message_D0 service value pixKey)
      else if type = JStr ''D+1''
      then Some (interpolate Number_toString message_D_plus_1 service value pixKey)
      else None)"

definition notify_billing ::
  "(real \<Rightarrow> string) \<Rightarrow> draw \<Rightarrow> js_error option \<Rightarrow> request \<Rightarrow> state \<Rightarrow> response \<times> state" where
  "notify_billing Number_toString random send_failure req st =
     (let number = property (body req) ''number'';
          type = property (body req) ''type'';
          service = property (body req) ''service'';
          value = property (body req) ''value'';
          pixKey = property (body req) ''pixKey''
      in if \<not> truthy number \<or> \<not> truthy type \<or> \<not> truthy service \<or> \<not> truthy value
              \<or> \<not> truthy pixKey
         then (\<lparr>status = 400, json = [(''success'', JBool False),
                  (''error'', JStr ''Missing required fields: number, type, service, value, pixKey'')]\<rparr>,
               st)
         else
           (case billing_message Number_toString type service value pixKey of
              None \<Rightarrow>
                (\<lparr>status = 400, json = [(''success'', JBool False),
                    (''error'', JStr ''Invalid type. Use: D-1, D0, or D+1'')]\<rparr>, st)
            | Some (Inl error) \<Rightarrow>
                (server_error error,
                 emit (LogError (emoji_cross_mark @ '' Error sending billing notification:'')) st)
            | Some (Inr message) \<Rightarrow>
                (case sendWhatsAppMessage Number_toString random send_failure number message st of
                   (Inl error, st') \<Rightarrow>
                     (server_error error, emit (LogError (emoji_cross_mark @ '' Error sending billing notification:'')) st')
                 | (Inr u, st') \<Rightarrow>
                     (case formatPhoneNumber_value number of
                        Inl error \<Rightarrow> (server_error error, emit (LogError (emoji_cross_mark @ '' Error sending billing notification:'')) st')
                      | Inr formatted \<Rightarrow>
                          (\<lparr>status = 200, json = [(''success'', JBool True),
                              (''message'', JStr ''Billing notification sent successfully''),
                              (''type'', type),
                              (''number'', JStr formatted)]\<rparr>, st')))))"

definition post_notify_billing ::
  "string \<Rightarrow> (real \<Rightarrow> string) \<Rightarrow> draw \<Rightarrow> js_error option \<Rightarrow> request \<Rightarrow> state
     \<Rightarrow> response \<times> state" where
  \<comment> \<open>\<open>app.post('/v1/notify-billing', validateApiKey, ...)\<close>\<close>
  "post_notify_billing API_KEY Number_toString random send_failure req st =
     (case validateApiKey API_KEY req of
        Some denied \<Rightarrow> (denied, st)
      | None \<Rightarrow> notify_billing Number_toString random send_failure req st)"

section \<open>Failure conditions and example inputs\<close>

text \<open>
  What the specification calls a retrieval failure of the store: the awaited call
  rejects, the response carries an error (the code \<open>PGRST116\<close> of a missing row
  included), or it carries neither an error nor a row.
\<close>

definition load_failed :: "'b select_response settled \<Rightarrow> bool" where
  "load_failed response =
     (case response of
        Rejected e \<Rightarrow> True
      | Fulfilled r \<Rightarrow> select_error r \<noteq> None \<or> data r = None)"

definition save_failed :: "upsert_response settled \<Rightarrow> bool" where
  "save_failed response =
     (case response of Rejected e \<Rightarrow> True | Fulfilled r \<Rightarrow> upsert_error r \<noteq> None)"

text \<open>
  The request of the README's billing example, with the type \<open>D+1\<close>, and the OTP
  request with the code given as the number zero.
\<close>

definition billing_fixture :: request where
  "billing_fixture =
     \<lparr>x_api_key = Some ''sua-chave-aqui'',
      body = [''number'' \<mapsto> JStr ''11999999999'', ''type'' \<mapsto> JStr ''D+1'',
              ''service'' \<mapsto> JStr ''Netflix Premium'', ''value'' \<mapsto> JStr ''14.90'',
              ''pixKey'' \<mapsto> JStr ''email@exemplo.com'']\<rparr>"

definition otp_zero_code :: request where
  "otp_zero_code =
     \<lparr>x_api_key = Some ''sua-chave-aqui'',
      body = [''number'' \<mapsto> JStr ''11999999999'', ''code'' \<mapsto> JNum 0]\<rparr>"

text \<open>Two draws: one half, and \<open>4095/4096\<close>.\<close>

definition draw_half :: draw where
  "draw_half = \<lparr>mantissa = 1, scale = 1\<rparr>"

definition draw_near_one :: draw where
  "draw_near_one = \<lparr>mantissa = 4095, scale = 12\<rparr>"

text \<open>A process with a socket, before and after the transport has reported \<open>open\<close>.\<close>

definition with_socket :: state where
  "with_socket = initial_state\<lparr>sock := Some 0\<rparr>"

definition connected_state :: state where
  "connected_state = initial_state\<lparr>sock := Some 0, isConnected := True\<rparr>"

definition open_update :: update where
  "open_update = \<lparr>connection = Some ''open'', lastDisconnect = None, qr = None\<rparr>"

definition close_update :: "int option \<Rightarrow> update" where
  \<comment> \<open>a \<open>close\<close> whose error carries the given \<open>statusCode\<close>\<close>
  "close_update code =
     \<lparr>connection = Some ''close'',
      lastDisconnect = Some \<lparr>disconnect_error = Some \<lparr>error_output = Some \<lparr>statusCode = code\<rparr>,
        error_message = Some ''Connection Closed''\<rparr>\<rparr>,
      qr = None\<rparr>"

definition close_without_reason :: update where
  "close_without_reason = \<lparr>connection = Some ''close'', lastDisconnect = None, qr = None\<rparr>"

section \<open>Properties of address normalization\<close>

lemma startsWith_prefix: "startsWith s p \<longleftrightarrow> prefix p s"
  by (induction s p rule: startsWith.induct) auto

lemma char_code_eq: "c = d \<longleftrightarrow> (of_char c :: nat) = of_char d"
  by (simp add: of_char_eq_iff)

lemma isDigit_code: "isDigit c \<longleftrightarrow> 48 \<le> (of_char c :: nat) \<and> (of_char c :: nat) \<le> 57"
  unfolding isDigit_def by (simp add: char_code_eq [of c]) arith

lemma replace_nondigits_strip: "replace_nondigits s = strip_non_digits s"
  unfolding replace_nondigits_def strip_non_digits_def
  by (rule filter_cong) (simp_all add: isDigit_code)

lemma replace_nondigits_suffix: "replace_nondigits ''@s.whatsapp.net'' = []"
  by (simp add: replace_nondigits_def isDigit_def)

lemma isDigit_5: "isDigit CHR ''5''"
  by (simp add: isDigit_def)

lemma replace_nondigits_idem: "replace_nondigits (replace_nondigits s) = replace_nondigits s"
  by (simp add: replace_nondigits_def)

lemma replace_nondigits_append:
  "replace_nondigits (a @ b) = replace_nondigits a @ replace_nondigits b"
  by (simp add: replace_nondigits_def)

lemma formatPhoneNumber_cleaned:
  "formatPhoneNumber number = cleaned_digits number @ ''@s.whatsapp.net''"
  by (simp add: formatPhoneNumber_def cleaned_digits_def Let_def)

lemma cleaned_digits_55: "startsWith (cleaned_digits number) ''55''"
  by (simp add: cleaned_digits_def Let_def)

lemma filter_drop_digits: "filter isDigit (drop n (filter isDigit s)) = drop n (filter isDigit s)"
  by (rule filter_True) (auto dest: in_set_dropD)

lemma cleaned_digits_all_digits:
  "replace_nondigits (cleaned_digits number) = cleaned_digits number"
  by (simp add: cleaned_digits_def Let_def replace_nondigits_def substring_def
      filter_drop_digits isDigit_5)

text \<open>
  C2: for every input string the result of \<open>formatPhoneNumber\<close> is the one the
  specification's four steps give (strip the non-digits, drop a leading zero, prepend
  \<open>55\<close> unless the digits start with it, append \<open>@s.whatsapp.net\<close>); the inputs
  \<open>11999999999\<close> and \<open>011999999999\<close> both give \<open>5511999999999@s.whatsapp.net\<close>, and
  \<open>5511999999999\<close> gives its own digits with the suffix appended once.
\<close>

theorem formatPhoneNumber_spec:
  "formatPhoneNumber x = normalize_spec x
   \<and> formatPhoneNumber ''11999999999'' = ''5511999999999@s.whatsapp.net''
   \<and> formatPhoneNumber ''011999999999'' = ''5511999999999@s.whatsapp.net''
   \<and> formatPhoneNumber ''5511999999999'' = ''5511999999999'' @ ''@s.whatsapp.net''"
proof -
  have "formatPhoneNumber x = normalize_spec x"
    by (cases "strip_non_digits x")
      (auto simp add: formatPhoneNumber_def normalize_spec_def replace_nondigits_strip
        startsWith_prefix drop_leading_zero_def ensure_country_code_def substring_def Let_def)
  moreover have "formatPhoneNumber ''11999999999'' = ''5511999999999@s.whatsapp.net''"
    by (simp add: formatPhoneNumber_def replace_nondigits_def isDigit_def substring_def)
  moreover have "formatPhoneNumber ''011999999999'' = ''5511999999999@s.whatsapp.net''"
    by (simp add: formatPhoneNumber_def replace_nondigits_def isDigit_def substring_def)
  moreover have "formatPhoneNumber ''5511999999999'' = ''5511999999999'' @ ''@s.whatsapp.net''"
    by (simp add: formatPhoneNumber_def replace_nondigits_def isDigit_def substring_def)
  ultimately show ?thesis by blast
qed

text \<open>
  C7: address normalization is a total function of the input string, and applying it to
  its own result (the form that carries the suffix) gives that result again.
\<close>

theorem formatPhoneNumber_idempotent:
  "formatPhoneNumber (formatPhoneNumber x) = formatPhoneNumber x"
proof -
  let ?d = "cleaned_digits x"
  have digits: "replace_nondigits (formatPhoneNumber x) = ?d"
    by (simp add: formatPhoneNumber_cleaned replace_nondigits_append
        cleaned_digits_all_digits replace_nondigits_suffix)
  have five: "startsWith ?d ''55''"
    by (rule cleaned_digits_55)
  then have no_zero: "\<not> startsWith ?d ''0''"
    by (cases ?d) simp_all
  have "cleaned_digits (formatPhoneNumber x) = ?d"
    unfolding cleaned_digits_def [of "formatPhoneNumber x"] digits Let_def
    using five no_zero by simp
  then show ?thesis
    by (simp add: formatPhoneNumber_cleaned)
qed

text \<open>
  C9: for every input string the result starts with \<open>55\<close> and ends with
  \<open>@s.whatsapp.net\<close>; at most one leading zero is dropped, so when the digits of the
  input start with \<open>00\<close> the second zero stays in the normalized number.
\<close>

theorem formatPhoneNumber_shape:
  "prefix ''55'' (formatPhoneNumber x)
   \<and> suffix ''@s.whatsapp.net'' (formatPhoneNumber x)
   \<and> (replace_nondigits x = ''00'' @ rest \<longrightarrow>
        formatPhoneNumber x = ''550'' @ rest @ ''@s.whatsapp.net'')"
proof -
  have "prefix ''55'' (cleaned_digits x)"
    using cleaned_digits_55 [of x] by (simp only: startsWith_prefix)
  then have "prefix ''55'' (formatPhoneNumber x)"
    by (simp only: formatPhoneNumber_cleaned prefix_prefix)
  moreover have "suffix ''@s.whatsapp.net'' (formatPhoneNumber x)"
    by (simp only: formatPhoneNumber_cleaned suffix_appendI suffix_order.refl)
  moreover have "replace_nondigits x = ''00'' @ rest \<longrightarrow>
        formatPhoneNumber x = ''550'' @ rest @ ''@s.whatsapp.net''"
    by (simp add: formatPhoneNumber_def substring_def)
  ultimately show ?thesis by blast
qed

theorem formatPhoneNumber_shape_witness:
  "replace_nondigits ''(00) 11-9'' = ''00'' @ ''119''
   \<and> prefix ''55'' (formatPhoneNumber ''(00) 11-9'')
   \<and> suffix ''@s.whatsapp.net'' (formatPhoneNumber ''(00) 11-9'')
   \<and> formatPhoneNumber ''(00) 11-9'' = ''550'' @ ''119'' @ ''@s.whatsapp.net''"
proof -
  have h: "replace_nondigits ''(00) 11-9'' = ''00'' @ ''119''"
    by (simp add: replace_nondigits_def isDigit_def)
  show ?thesis
    using h formatPhoneNumber_shape [of "''(00) 11-9''" "''119''"] by blast
qed

section \<open>Connection state\<close>

lemma close_keeps_flag:
  assumes "connection u = Some ''close''" and "update_statusCode u \<noteq> Some loggedOut"
  shows "isConnected (connection_update loggedOut u st) = isConnected st"
  using assms
  by (simp add: connection_update_def Let_def setTimeout_def emit_def show_qr_def
      split: option.splits)

lemma close_keeps_sock: "sock (connection_update loggedOut u st) = sock st"
  by (simp add: connection_update_def Let_def setTimeout_def emit_def show_qr_def
      split: option.splits)

lemma close_keeps_sent:
  assumes "connection u = Some ''close''"
  shows "sent (connection_update loggedOut u st) = sent st"
  using assms
  by (simp add: connection_update_def Let_def setTimeout_def emit_def show_qr_def
      split: option.splits)

text \<open>
  C1 says that after a \<open>close\<close> with a reason other than the logged-out sentinel the
  flag reads "not connected". The handler resets \<open>isConnected\<close> only in the
  logged-out branch: when the process was connected, it still reads connected after such
  a \<open>close\<close>, the health check reports \<open>connected: true\<close>, and a send passes its
  connection test and reaches \<open>sock.sendMessage\<close>.
\<close>

theorem close_leaves_flag_connected:
  assumes "connection u = Some ''close''" and "update_statusCode u \<noteq> Some loggedOut"
    and "isConnected st" and "sock st = Some sk"
  shows "isConnected (connection_update loggedOut u st)
       \<and> health timestamp (connection_update loggedOut u st)
          = \<lparr>status = 200, json = [(''success'', JBool True), (''connected'', JBool True),
              (''timestamp'', JStr timestamp)]\<rparr>
       \<and> sent (snd (sendWhatsAppMessage Number_toString random send_failure (JStr number)
            message (connection_update loggedOut u st)))
          = sent st @ [(formatPhoneNumber number, message)]"
proof -
  let ?st' = "connection_update loggedOut u st"
  have flag: "isConnected ?st'"
    using close_keeps_flag [OF assms(1) assms(2), of st] assms(3) by simp
  have sck: "sock ?st' = Some sk"
    using assms(4) by (simp add: close_keeps_sock)
  have "sent (snd (sendWhatsAppMessage Number_toString random send_failure (JStr number)
            message ?st')) = sent ?st' @ [(formatPhoneNumber number, message)]"
    using flag sck
    by (simp add: sendWhatsAppMessage_def formatPhoneNumber_value_def randomDelay_def
        setTimeout_def emit_def Let_def split: option.splits)
  then show ?thesis
    using flag by (simp add: health_def close_keeps_sent [OF assms(1)])
qed

text \<open>
  The transport reports \<open>open\<close> and then \<open>close\<close> with the status code 428 while the
  sentinel is 401.
\<close>

theorem close_leaves_flag_connected_witness:
  "isConnected (connection_update 401 (close_update (Some 428))
      (connection_update 401 open_update with_socket))
   \<and> health ''t'' (connection_update 401 (close_update (Some 428))
        (connection_update 401 open_update with_socket))
      = \<lparr>status = 200, json = [(''success'', JBool True), (''connected'', JBool True),
          (''timestamp'', JStr ''t'')]\<rparr>
   \<and> sent (snd (sendWhatsAppMessage (\<lambda>x. []) draw_half None (JStr ''11999999999'') ''hi''
        (connection_update 401 (close_update (Some 428))
          (connection_update 401 open_update with_socket))))
      = [(''5511999999999@s.whatsapp.net'', ''hi'')]"
proof -
  let ?st1 = "connection_update 401 open_update with_socket"
  have s1: "isConnected ?st1" "sock ?st1 = Some 0" "sent ?st1 = []"
    by (simp_all add: connection_update_def open_update_def with_socket_def initial_state_def
        emit_def Let_def)
  have close: "connection (close_update (Some 428)) = Some ''close''"
    "update_statusCode (close_update (Some 428)) \<noteq> Some 401"
    by (simp_all add: close_update_def update_statusCode_def)
  have addr: "formatPhoneNumber ''11999999999'' = ''5511999999999@s.whatsapp.net''"
    by (simp add: formatPhoneNumber_def replace_nondigits_def isDigit_def substring_def)
  show ?thesis
    using close_leaves_flag_connected [OF close s1(1) s1(2),
        of "''t''" "\<lambda>x. []" draw_half None "''11999999999''" "''hi''"]
    by (simp add: s1(3) addr)
qed

text \<open>
  C3: on a \<open>close\<close> event whose status code is the logged-out sentinel no timer is set;
  on a \<open>close\<close> with any other status code, an absent one included, exactly one timer is
  set: the reconnect, after 5000 milliseconds.
\<close>

theorem reconnect_scheduling:
  assumes "connection u = Some ''close''"
  shows "(update_statusCode u = Some loggedOut \<longrightarrow>
            timers (connection_update loggedOut u st) = timers st)
       \<and> (update_statusCode u \<noteq> Some loggedOut \<longrightarrow>
            timers (connection_update loggedOut u st) = timers st @ [(Reconnect, 5000)])"
  using assms
  by (simp add: connection_update_def Let_def setTimeout_def emit_def show_qr_def
      split: option.splits)

theorem reconnect_scheduling_witness:
  "timers (connection_update 401 (close_update (Some 401)) initial_state) = []
   \<and> timers (connection_update 401 (close_update (Some 428)) initial_state) = [(Reconnect, 5000)]
   \<and> timers (connection_update 401 close_without_reason initial_state) = [(Reconnect, 5000)]"
proof -
  have c: "connection (close_update (Some 401)) = Some ''close''"
    "connection (close_update (Some 428)) = Some ''close''"
    "connection close_without_reason = Some ''close''"
    by (simp_all add: close_update_def close_without_reason_def)
  have code: "update_statusCode (close_update (Some 401)) = Some 401"
    "update_statusCode (close_update (Some 428)) \<noteq> Some 401"
    "update_statusCode close_without_reason \<noteq> Some 401"
    by (simp_all add: close_update_def close_without_reason_def update_statusCode_def)
  have t: "timers initial_state = []"
    by (simp add: initial_state_def)
  show ?thesis
    using reconnect_scheduling [OF c(1), of 401 initial_state]
      reconnect_scheduling [OF c(2), of 401 initial_state]
      reconnect_scheduling [OF c(3), of 401 initial_state] code t
    by simp
qed

section \<open>The send operation\<close>

text \<open>
  C4: a call of \<open>sendWhatsAppMessage\<close> while the flag is false or \<open>sock\<close> is \<open>null\<close>
  throws the error \<open>WhatsApp not connected\<close>, whatever its arguments, and leaves the
  whole state as it was: no call of \<open>sock.sendMessage\<close>, no timer, no log line.
\<close>

theorem send_requires_connection:
  assumes "\<not> isConnected st \<or> sock st = None"
  shows "sendWhatsAppMessage Number_toString random send_failure number message st =
           (Inl (JsError None ''WhatsApp not connected''), st)"
  using assms by (auto simp add: sendWhatsAppMessage_def)

theorem send_requires_connection_witness:
  "sendWhatsAppMessage (\<lambda>x. []) draw_half None (JStr ''11999999999'') ''hi'' with_socket =
     (Inl (JsError None ''WhatsApp not connected''), with_socket)
   \<and> sendWhatsAppMessage (\<lambda>x. []) draw_half None (JStr ''11999999999'') ''hi''
       (initial_state\<lparr>isConnected := True\<rparr>) =
     (Inl (JsError None ''WhatsApp not connected''), initial_state\<lparr>isConnected := True\<rparr>)"
proof -
  have a: "\<not> isConnected with_socket \<or> sock with_socket = None"
    by (simp add: with_socket_def initial_state_def)
  have b: "\<not> isConnected (initial_state\<lparr>isConnected := True\<rparr>)
      \<or> sock (initial_state\<lparr>isConnected := True\<rparr>) = None"
    by (simp add: initial_state_def)
  show ?thesis
    using send_requires_connection [OF a] send_requires_connection [OF b] by blast
qed

lemma bit_length_numeral:
  "bit_length 0 = 0"
  "bit_length (Suc 0) = Suc 0"
  "bit_length (numeral (Num.Bit0 n)) = Suc (bit_length (numeral n))"
  "bit_length (numeral (Num.Bit1 n)) = Suc (bit_length (numeral n))"
proof -
  show "bit_length 0 = 0"
    by (simp add: bit_length.simps)
  show "bit_length (Suc 0) = Suc 0"
    by (simp add: bit_length.simps [of "Suc 0"] bit_length.simps [of 0])
  have "bit_length (numeral (Num.Bit0 n)) = Suc (bit_length (numeral (Num.Bit0 n) div 2))"
    by (subst bit_length.simps) simp
  then show "bit_length (numeral (Num.Bit0 n)) = Suc (bit_length (numeral n))"
    by simp
  have "bit_length (numeral (Num.Bit1 n)) = Suc (bit_length (numeral (Num.Bit1 n) div 2))"
    by (subst bit_length.simps) simp
  then show "bit_length (numeral (Num.Bit1 n)) = Suc (bit_length (numeral n))"
    by simp
qed

lemma bit_length_le: "n < 2 ^ j \<Longrightarrow> bit_length n \<le> j"
proof (induction j arbitrary: n)
  case 0
  then show ?case by (simp add: bit_length.simps)
next
  case (Suc j)
  show ?case
  proof (cases "n = 0")
    case True
    then show ?thesis by (simp add: bit_length.simps)
  next
    case False
    have "n div 2 < 2 ^ j"
      using Suc.prems by simp
    then have "bit_length (n div 2) \<le> j"
      by (rule Suc.IH)
    then show ?thesis
      using False by (simp add: bit_length.simps [of n])
  qed
qed

text \<open>
  Rounding a product below \<open>2 ^ 64\<close> to 53 bits drops at most 11 bits, so it adds at
  most half of \<open>2 ^ 11\<close>.
\<close>

lemma round_nearest_even_upper:
  assumes "N < 2 ^ 64"
  shows "round_nearest_even N \<le> N + 1024"
proof (cases "bit_length N \<le> 53")
  case True
  then show ?thesis by (simp add: round_nearest_even_def)
next
  case False
  define s where "s = bit_length N - 53"
  have "bit_length N \<le> 64"
    using assms by (rule bit_length_le)
  then have s: "1 \<le> s" "s \<le> 11"
    using False by (simp_all add: s_def)
  define q where "q = N div 2 ^ s"
  define r where "r = N mod 2 ^ s"
  have N: "N = q * 2 ^ s + r"
    unfolding q_def r_def by (rule div_mult_mod_eq [symmetric])
  have pow: "(2::nat) ^ s = 2 * 2 ^ (s - 1)"
    using s(1) by (cases s) simp_all
  have "(2::nat) ^ (s - 1) \<le> 2 ^ 10"
    using s(2) by (intro power_increasing) simp_all
  then have half: "(2::nat) ^ (s - 1) \<le> 1024"
    by simp
  have R: "round_nearest_even N =
      (if 2 ^ (s - 1) < r \<or> (r = 2 ^ (s - 1) \<and> odd q) then q + 1 else q) * 2 ^ s"
    using False by (simp add: round_nearest_even_def Let_def s_def q_def r_def)
  show ?thesis
  proof (cases "2 ^ (s - 1) < r \<or> (r = 2 ^ (s - 1) \<and> odd q)")
    case True
    then have "2 ^ (s - 1) \<le> r" by auto
    moreover have "round_nearest_even N = q * 2 ^ s + 2 ^ s"
      using True R by simp
    ultimately show ?thesis
      using N pow half by linarith
  next
    case False
    then have "round_nearest_even N = q * 2 ^ s"
      using R by simp
    then show ?thesis
      using N by linarith
  qed
qed

lemma randomDelay_ms_bounds:
  assumes "is_draw random"
  shows "1000 \<le> randomDelay_ms 1000 3000 random \<and> randomDelay_ms 1000 3000 random \<le> 3000"
proof -
  define m where "m = mantissa random"
  define k where "k = scale random"
  define R where "R = round_nearest_even (m * 2001)"
  have m: "m < 2 ^ 53" "m < 2 ^ k"
    using assms by (simp_all add: is_draw_def m_def k_def)
  have "m * 2001 < 2 ^ 53 * 2048"
    using m(1) by simp
  then have "m * 2001 < 2 ^ 64"
    by simp
  then have "R \<le> m * 2001 + 1024"
    unfolding R_def by (rule round_nearest_even_upper)
  moreover have "m + 1 \<le> 2 ^ k"
    using m(2) by simp
  then have "(m + 1) * 2001 \<le> 2 ^ k * 2001"
    by (rule mult_le_mono1)
  ultimately have "R < 2001 * 2 ^ k"
    by simp
  then have "R div 2 ^ k < 2001"
    by (simp add: less_mult_imp_div_less)
  then have "int R div 2 ^ k < 2001"
    by (metis of_nat_less_iff of_nat_numeral zdiv_int of_nat_power)
  moreover have "0 \<le> int R div 2 ^ k"
    by (simp add: pos_imp_zdiv_nonneg_iff)
  moreover have "randomDelay_ms 1000 3000 random = int R div 2 ^ k + 1000"
    by (simp add: randomDelay_ms_def R_def m_def k_def)
  ultimately show ?thesis
    by simp
qed

lemma draw_value_range: "is_draw d \<Longrightarrow> 0 \<le> draw_value d \<and> draw_value d < 1"
  by (simp add: is_draw_def draw_value_def)

text \<open>
  A draw at which the rounding of the product decides the delay: the exact product is
  just below 1970 and rounds to 1970.
\<close>

lemma randomDelay_ms_rounds_up:
  "is_draw \<lparr>mantissa = 4433828718600638, scale = 52\<rparr>
   \<and> randomDelay_ms 1000 3000 \<lparr>mantissa = 4433828718600638, scale = 52\<rparr> = 2970
   \<and> 4433828718600638 * 2001 div (2 ^ 52 :: nat) = 1969"
  by (simp add: is_draw_def randomDelay_ms_def round_nearest_even_def bit_length_numeral Let_def)

lemma send_sets_delay:
  assumes "isConnected st" and "sock st = Some sk"
  shows "timers (snd (sendWhatsAppMessage Number_toString random send_failure (JStr number)
            message st)) = timers st @ [(Resolve, randomDelay_ms 1000 3000 random)]"
  using assms
  by (simp add: sendWhatsAppMessage_def formatPhoneNumber_value_def randomDelay_def
      setTimeout_def emit_def Let_def split: option.splits)

text \<open>
  C6 says that the delay is at least 1000 and strictly below 3000 milliseconds for every
  draw in \<open>[0, 1)\<close>. The code multiplies the draw by \<open>max - min + 1 = 2001\<close>, so the upper
  bound is reached: with the draw \<open>4095/4096\<close> a send waits 3000 milliseconds.
\<close>

theorem send_delay_reaches_3000:
  "is_draw draw_near_one
   \<and> 0 \<le> draw_value draw_near_one \<and> draw_value draw_near_one < 1
   \<and> timers (snd (sendWhatsAppMessage (\<lambda>x. []) draw_near_one None (JStr ''11999999999'') ''hi''
        connected_state)) = [(Resolve, 3000)]
   \<and> \<not> randomDelay_ms 1000 3000 draw_near_one < 3000"
proof -
  have st: "isConnected connected_state" "sock connected_state = Some 0"
    "timers connected_state = []"
    by (simp_all add: connected_state_def initial_state_def)
  have d: "randomDelay_ms 1000 3000 draw_near_one = 3000"
    by (simp add: randomDelay_ms_def round_nearest_even_def bit_length_numeral
        draw_near_one_def)
  have v: "is_draw draw_near_one"
    "0 \<le> draw_value draw_near_one \<and> draw_value draw_near_one < 1"
    by (simp_all add: is_draw_def draw_value_def draw_near_one_def)
  show ?thesis
    using send_sets_delay [OF st(1) st(2), of "\<lambda>x. []" draw_near_one None "''11999999999''"
        "''hi''"] v
    by (simp add: d st(3))
qed

text \<open>
  C6, amended: for every draw, a double-precision number in \<open>[0, 1)\<close>, the delay that a
  send waits before it transmits is a whole number of milliseconds, at least 1000 and
  at most 3000.
\<close>

theorem send_delay_range:
  assumes "is_draw random" and "isConnected st" and "sock st = Some sk"
  shows "0 \<le> draw_value random \<and> draw_value random < 1
         \<and> timers (snd (sendWhatsAppMessage Number_toString random send_failure (JStr number)
              message st)) = timers st @ [(Resolve, randomDelay_ms 1000 3000 random)]
         \<and> 1000 \<le> randomDelay_ms 1000 3000 random
         \<and> randomDelay_ms 1000 3000 random \<le> 3000"
  using send_sets_delay [OF assms(2) assms(3)] randomDelay_ms_bounds [OF assms(1)]
    draw_value_range [OF assms(1)]
  by simp

theorem send_delay_range_witness:
  "is_draw draw_half
   \<and> timers (snd (sendWhatsAppMessage (\<lambda>x. []) draw_half None (JStr ''11999999999'') ''hi''
      connected_state)) = [(Resolve, 2000)]
   \<and> (1000 :: int) \<le> 2000 \<and> (2000 :: int) \<le> 3000"
proof -
  have r: "is_draw draw_half"
    by (simp add: is_draw_def draw_half_def)
  have st: "isConnected connected_state" "sock connected_state = Some 0"
    "timers connected_state = []"
    by (simp_all add: connected_state_def initial_state_def)
  have d: "randomDelay_ms 1000 3000 draw_half = 2000"
    by (simp add: randomDelay_ms_def round_nearest_even_def bit_length_numeral draw_half_def)
  show ?thesis
    using r send_delay_range [OF r st(1) st(2), of "\<lambda>x. []" None "''11999999999''" "''hi''"]
    by (simp add: d st(3))
qed

section \<open>Session store adapter: failures stay inside\<close>

lemma loadState_returns: "\<exists>auth st'. loadState response st = (Inr auth, st')"
  by (simp add: loadState_def split: prod.splits sum.splits)

lemma loadState_failed:
  assumes "load_failed response"
  shows "fst (loadState response st) = Inr empty_auth_state"
  using assms
  by (auto simp: load_failed_def loadState_def loadState_try_def Let_def
      split: settled.splits option.splits)

lemma saveState_returns: "fst (saveState response st) = Inr ()"
  by (simp add: saveState_def split: prod.splits sum.splits)

lemma saveState_failed:
  assumes "save_failed response"
  shows "snd (saveState response st) =
           emit (LogError (emoji_cross_mark @ '' Error saving auth state:'')) st"
  using assms
  by (auto simp: save_failed_def saveState_def saveState_try_def
      split: settled.splits option.splits)

text \<open>
  C5: \<open>loadState\<close> returns a state on every answer of the store and never throws; on a
  missing row or any other retrieval failure the state it returns is
  \<open>{ creds: null, keys: null }\<close>. \<open>saveState\<close> never throws; when the store fails, its
  only effect is one error line in the log. Thrown values are error objects, as the
  store client and the language runtime produce them.
\<close>

theorem session_store_never_raises:
  "(\<exists>auth st'. loadState response st = (Inr auth, st'))
   \<and> (load_failed response \<longrightarrow> fst (loadState response st) = Inr empty_auth_state)
   \<and> fst (saveState saved st) = Inr ()
   \<and> (save_failed saved \<longrightarrow>
        snd (saveState saved st) =
          emit (LogError (emoji_cross_mark @ '' Error saving auth state:'')) st)"
  using loadState_returns loadState_failed saveState_returns saveState_failed by blast

theorem session_store_never_raises_witness:
  "load_failed (Fulfilled \<lparr>data = None,
        select_error = Some (JsError (Some ''PGRST116'') ''no rows'')\<rparr>
      :: nat select_response settled)
   \<and> fst (loadState (Fulfilled \<lparr>data = None,
        select_error = Some (JsError (Some ''PGRST116'') ''no rows'')\<rparr>
      :: nat select_response settled) initial_state) = Inr empty_auth_state
   \<and> save_failed (Rejected (JsError None ''fetch failed''))
   \<and> saveState (Rejected (JsError None ''fetch failed'')) initial_state =
       (Inr (), emit (LogError (emoji_cross_mark @ '' Error saving auth state:'')) initial_state)"
proof -
  let ?r = "Fulfilled \<lparr>data = None,
        select_error = Some (JsError (Some ''PGRST116'') ''no rows'')\<rparr>
      :: nat select_response settled"
  let ?s = "Rejected (JsError None ''fetch failed'') :: upsert_response settled"
  have l: "load_failed ?r"
    by (simp add: load_failed_def)
  have s: "save_failed ?s"
    by (simp add: save_failed_def)
  show ?thesis
    using l s session_store_never_raises [of ?r initial_state ?s]
    by (simp add: prod_eq_iff)
qed

section \<open>HTTP handlers\<close>

lemma startsWith_includes_str: "startsWith s p \<Longrightarrow> includes_str s p"
  by (cases s; cases p) simp_all

lemma includes_str_append: "includes_str (a @ s @ b) s"
proof (induction a)
  case Nil
  have "startsWith (s @ b) s"
    by (simp add: startsWith_prefix)
  then show ?case
    by (simp add: startsWith_includes_str)
next
  case (Cons c a)
  then show ?case by simp
qed

lemma message_D_plus_1_includes:
  "includes_str (message_D_plus_1 service value pixKey) service
   \<and> includes_str (message_D_plus_1 service value pixKey) value
   \<and> includes_str (message_D_plus_1 service value pixKey) pixKey"
proof -
  let ?m = "message_D_plus_1 service value pixKey"
  obtain a b where "?m = a @ service @ b"
    unfolding message_D_plus_1_def by (metis append.assoc)
  moreover obtain c d where "?m = c @ value @ d"
    unfolding message_D_plus_1_def by (metis append.assoc)
  moreover obtain e f where "?m = e @ pixKey @ f"
    unfolding message_D_plus_1_def by (metis append.assoc)
  ultimately show ?thesis
    by (metis includes_str_append)
qed

lemma notify_billing_D_plus_1:
  assumes "body req ''number'' = Some (JStr number)" and "number \<noteq> []"
    and "body req ''type'' = Some (JStr ''D+1'')"
    and "body req ''service'' = Some (JStr service)" and "service \<noteq> []"
    and "body req ''value'' = Some (JStr value)" and "value \<noteq> []"
    and "body req ''pixKey'' = Some (JStr pixKey)" and "pixKey \<noteq> []"
    and "isConnected st" and "sock st = Some sk"
  shows "sent (snd (notify_billing Number_toString random send_failure req st)) =
           sent st @ [(formatPhoneNumber number, message_D_plus_1 service value pixKey)]"
  using assms
  by (simp add: notify_billing_def property_def billing_message_def interpolate_def
      sendWhatsAppMessage_def formatPhoneNumber_value_def randomDelay_def setTimeout_def
      emit_def Let_def split: option.splits)

lemma billing_fixture_fields:
  "body billing_fixture ''number'' = Some (JStr ''11999999999'')"
  "body billing_fixture ''type'' = Some (JStr ''D+1'')"
  "body billing_fixture ''service'' = Some (JStr ''Netflix Premium'')"
  "body billing_fixture ''value'' = Some (JStr ''14.90'')"
  "body billing_fixture ''pixKey'' = Some (JStr ''email@exemplo.com'')"
  by (simp_all add: billing_fixture_def)

lemma connected_state_fields:
  "isConnected connected_state" "sock connected_state = Some 0" "sent connected_state = []"
  by (simp_all add: connected_state_def initial_state_def)

lemma example_address: "formatPhoneNumber ''11999999999'' = ''5511999999999@s.whatsapp.net''"
  by (simp add: formatPhoneNumber_def replace_nondigits_def isDigit_def substring_def)

text \<open>
  A code that is an object with an own \<open>toString\<close> property is truthy, but the template
  literal cannot convert it: the handler answers 500 and nothing is sent.
\<close>

lemma send_otp_unconvertible_code:
  "send_otp Number_toString random send_failure
     \<lparr>x_api_key = Some ''sua-chave-aqui'',
      body = [''number'' \<mapsto> JStr ''11999999999'',
              ''code'' \<mapsto> JObj [(''toString'', JNum 1)]]\<rparr> connected_state =
     (\<lparr>status = 500, json = [(''success'', JBool False),
         (''error'', JStr ''Cannot convert object to primitive value'')]\<rparr>,
      emit (LogError (emoji_cross_mark @ '' Error sending OTP:'')) connected_state)"
  by (simp add: send_otp_def property_def server_error_def)

text \<open>
  C8 says that the text sent for the \<open>D+1\<close> request holds all four values \<open>type\<close>,
  \<open>service\<close>, \<open>value\<close> and \<open>pixKey\<close>. The template interpolates three of them: the
  type selects the template and is not part of the text. For the example request,
  received with the right key while connected, the one message sent does not contain
  \<open>D+1\<close>.
\<close>

theorem notify_billing_text_without_type:
  "sent (snd (post_notify_billing ''sua-chave-aqui'' (\<lambda>x. []) draw_half None billing_fixture
      connected_state)) =
     [(''5511999999999@s.whatsapp.net'',
       message_D_plus_1 ''Netflix Premium'' ''14.90'' ''email@exemplo.com'')]
   \<and> \<not> includes_str (message_D_plus_1 ''Netflix Premium'' ''14.90'' ''email@exemplo.com'')
        ''D+1''"
proof -
  have route: "post_notify_billing ''sua-chave-aqui'' (\<lambda>x. []) draw_half None billing_fixture
      connected_state = notify_billing (\<lambda>x. []) draw_half None billing_fixture connected_state"
    by (simp add: post_notify_billing_def validateApiKey_def billing_fixture_def)
  have "\<not> includes_str (message_D_plus_1 ''Netflix Premium'' ''14.90'' ''email@exemplo.com'')
        ''D+1''"
    by (simp add: message_D_plus_1_def emoji_siren_def emoji_money_bag_def emoji_key_def
        lat_a_acute_def)
  then show ?thesis
    using notify_billing_D_plus_1 [OF billing_fixture_fields(1) _ billing_fixture_fields(2)
        billing_fixture_fields(3) _ billing_fixture_fields(4) _ billing_fixture_fields(5) _
        connected_state_fields(1) connected_state_fields(2), of "\<lambda>x. []" draw_half None]
    by (simp add: route connected_state_fields(3) example_address)
qed

text \<open>
  C8, amended: a \<open>POST /v1/notify-billing\<close> request with the right API key, a non-empty
  string \<open>number\<close>, the type \<open>D+1\<close> and non-empty strings \<open>service\<close>, \<open>value\<close> and
  \<open>pixKey\<close>, received while connected, makes exactly one call of \<open>sock.sendMessage\<close>: to
  the normalized number, with the \<open>D+1\<close> template, whose text contains the three
  interpolated values \<open>service\<close>, \<open>value\<close> and \<open>pixKey\<close> as they were given.
\<close>

theorem notify_billing_D_plus_1_text:
  assumes "validateApiKey API_KEY req = None"
    and "body req ''number'' = Some (JStr number)" and "number \<noteq> []"
    and "body req ''type'' = Some (JStr ''D+1'')"
    and "body req ''service'' = Some (JStr service)" and "service \<noteq> []"
    and "body req ''value'' = Some (JStr value)" and "value \<noteq> []"
    and "body req ''pixKey'' = Some (JStr pixKey)" and "pixKey \<noteq> []"
    and "isConnected st" and "sock st = Some sk"
  shows "sent (snd (post_notify_billing API_KEY Number_toString random send_failure req st)) =
           sent st @ [(formatPhoneNumber number, message_D_plus_1 service value pixKey)]
         \<and> includes_str (message_D_plus_1 service value pixKey) service
         \<and> includes_str (message_D_plus_1 service value pixKey) value
         \<and> includes_str (message_D_plus_1 service value pixKey) pixKey"
proof -
  have "post_notify_billing API_KEY Number_toString random send_failure req st =
          notify_billing Number_toString random send_failure req st"
    using assms(1) by (simp add: post_notify_billing_def)
  then show ?thesis
    using notify_billing_D_plus_1 [OF assms(2-12)] message_D_plus_1_includes
    by simp
qed

theorem notify_billing_D_plus_1_text_witness:
  "sent (snd (post_notify_billing ''sua-chave-aqui'' (\<lambda>x. []) draw_half None billing_fixture
      connected_state)) =
     [(''5511999999999@s.whatsapp.net'',
       message_D_plus_1 ''Netflix Premium'' ''14.90'' ''email@exemplo.com'')]
   \<and> includes_str (message_D_plus_1 ''Netflix Premium'' ''14.90'' ''email@exemplo.com'')
        ''Netflix Premium''
   \<and> includes_str (message_D_plus_1 ''Netflix Premium'' ''14.90'' ''email@exemplo.com'') ''14.90''
   \<and> includes_str (message_D_plus_1 ''Netflix Premium'' ''14.90'' ''email@exemplo.com'')
        ''email@exemplo.com''"
proof -
  have key: "validateApiKey ''sua-chave-aqui'' billing_fixture = None"
    by (simp add: validateApiKey_def billing_fixture_def)
  show ?thesis
    using notify_billing_D_plus_1_text [OF key billing_fixture_fields(1) _
        billing_fixture_fields(2) billing_fixture_fields(3) _ billing_fixture_fields(4) _
        billing_fixture_fields(5) _ connected_state_fields(1) connected_state_fields(2),
        of "\<lambda>x. []" draw_half None]
    by (simp add: connected_state_fields(3) example_address)
qed

text \<open>
  C10: both handlers test their fields for truthiness. When a required field is present
  with the value \<open>""\<close>, \<open>0\<close>, \<open>false\<close> or \<open>null\<close>, the handler answers 400 with its
  missing-fields error and leaves the state as it was, so the send operation is not
  called; the route, which checks the API key first, leaves the state as it was as well
  and gives the handler's answer whenever the key is accepted.
\<close>

theorem validation_tests_truthiness:
  assumes "body req k = Some v" and "v \<in> {JStr '''', JNum 0, JBool False, JNull}"
  shows "(k \<in> {''number'', ''code''} \<longrightarrow>
            send_otp Number_toString random send_failure req st =
              (\<lparr>status = 400, json = [(''success'', JBool False),
                  (''error'', JStr ''Missing required fields: number, code'')]\<rparr>, st)
            \<and> snd (post_send_otp API_KEY Number_toString random send_failure req st) = st
            \<and> (validateApiKey API_KEY req = None \<longrightarrow>
                 post_send_otp API_KEY Number_toString random send_failure req st =
                   send_otp Number_toString random send_failure req st))
       \<and> (k \<in> {''number'', ''type'', ''service'', ''value'', ''pixKey''} \<longrightarrow>
            notify_billing Number_toString random send_failure req st =
              (\<lparr>status = 400, json = [(''success'', JBool False),
                  (''error'',
                   JStr ''Missing required fields: number, type, service, value, pixKey'')]\<rparr>, st)
            \<and> snd (post_notify_billing API_KEY Number_toString random send_failure req st) = st
            \<and> (validateApiKey API_KEY req = None \<longrightarrow>
                 post_notify_billing API_KEY Number_toString random send_failure req st =
                   notify_billing Number_toString random send_failure req st))"
proof -
  have falsy: "\<not> truthy (property (body req) k)"
    using assms by (auto simp: property_def)
  have otp: "k \<in> {''number'', ''code''} \<Longrightarrow>
      send_otp Number_toString random send_failure req st =
        (\<lparr>status = 400, json = [(''success'', JBool False),
            (''error'', JStr ''Missing required fields: number, code'')]\<rparr>, st)"
    using falsy by (auto simp: send_otp_def Let_def)
  have billing: "k \<in> {''number'', ''type'', ''service'', ''value'', ''pixKey''} \<Longrightarrow>
      notify_billing Number_toString random send_failure req st =
        (\<lparr>status = 400, json = [(''success'', JBool False),
            (''error'',
             JStr ''Missing required fields: number, type, service, value, pixKey'')]\<rparr>, st)"
    using falsy by (auto simp: notify_billing_def Let_def)
  show ?thesis
    using otp billing
    by (auto simp: post_send_otp_def post_notify_billing_def split: option.splits)
qed

theorem validation_tests_truthiness_witness:
  "post_send_otp ''sua-chave-aqui'' (\<lambda>x. []) draw_half None otp_zero_code connected_state =
     (\<lparr>status = 400, json = [(''success'', JBool False),
         (''error'', JStr ''Missing required fields: number, code'')]\<rparr>, connected_state)"
proof -
  have field: "body otp_zero_code ''code'' = Some (JNum 0)"
    by (simp add: otp_zero_code_def)
  have v: "JNum 0 \<in> {JStr '''', JNum 0, JBool False, JNull}"
    by simp
  have key: "validateApiKey ''sua-chave-aqui'' otp_zero_code = None"
    by (simp add: validateApiKey_def otp_zero_code_def)
  show ?thesis
    using validation_tests_truthiness [OF field v, of "\<lambda>x. []" draw_half None connected_state
        "''sua-chave-aqui''"] key
    by simp
qed

end
